theory Spec2Isabelle
  imports Complex_Main
begin

section \<open>GirlfriendGPT: the companion service of \<^verbatim>\<open>src/api.py\<close>\<close>

text \<open>
  The service class of \<^verbatim>\<open>src/api.py\<close> is embedded as pure functions. Calls into the
  hosting platform (the transport callbacks, the agent loop, speech synthesis) have
  effects, so each of them is a function on an explicit world state \<open>'s\<close> that either
  fails or returns the next world. A Python exception is the \<open>Inl\<close> of a sum.
\<close>

subsection \<open>Errors\<close>

datatype error =
    KeyError string
  | IndexError
  | ValueError string
  | ValidationError "string list"
  | RecursionError
  | PlatformError string
  | OutsideModel string

text \<open>Sequencing of fallible steps: the first exception ends the computation.\<close>

definition and_then :: "error + 'a \<Rightarrow> ('a \<Rightarrow> error + 'b) \<Rightarrow> error + 'b" where
  "and_then r k = (case r of Inl e \<Rightarrow> Inl e | Inr x \<Rightarrow> k x)"

subsection \<open>Blocks\<close>

text \<open>
  A block is the platform's message object. Only the fields the service reads or writes
  are kept: the text, the media tag that \<^verbatim>\<open>is_text()\<close> tests, the reference to binary
  content, and the public-access flag that \<^verbatim>\<open>set_public_data\<close> writes. Blocks are
  values here: the assignment \<^verbatim>\<open>block.text = text\<close> is a record update, and what a
  callback receives is the block as it is at the time of the call.
\<close>

datatype mime_type = TXT | IMAGE | AUDIO | VIDEO

record block =
  block_text :: "string option"
  mime_type :: "mime_type option"
  content_url :: "string option"
  public_data :: bool

text \<open>
  \<^verbatim>\<open>Block(text=...)\<close>: every other field keeps the platform's default, so the block
  has no media type.
\<close>

definition Block :: "string \<Rightarrow> block" where
  "Block t = \<lparr>block_text = Some t, mime_type = None, content_url = None, public_data = False\<rparr>"

text \<open>
  The platform's \<^verbatim>\<open>Block.is_text()\<close>: the media type is text, or there is no media
  type and the text is present and not empty. A block built by \<^verbatim>\<open>Block(text=...)\<close>
  with a non-empty text is therefore a text block.
\<close>

definition is_text :: "block \<Rightarrow> bool" where
  "is_text b =
     (mime_type b = Some TXT \<or>
      (mime_type b = None \<and>
       (case block_text b of None \<Rightarrow> False | Some t \<Rightarrow> t \<noteq> [])))"

definition set_public_data :: "bool \<Rightarrow> block \<Rightarrow> block" where
  "set_public_data p b = b\<lparr>public_data := p\<rparr>"

subsection \<open>Configuration\<close>

definition MAX_FREE_MESSAGES :: nat where
  "MAX_FREE_MESSAGES = 5"

record GirlFriendGPTConfig =
  bot_token :: string
  elevenlabs_api_key :: string
  elevenlabs_voice_id :: string
  chat_ids :: string
  name :: string
  byline :: string
  identity :: string
  behavior :: string
  use_gpt4 :: bool

text \<open>
  The keyword arguments a configuration is built from: an absent argument is \<open>None\<close>.
\<close>

record config_kwargs =
  kw_bot_token :: "string option"
  kw_elevenlabs_api_key :: "string option"
  kw_elevenlabs_voice_id :: "string option"
  kw_chat_ids :: "string option"
  kw_name :: "string option"
  kw_byline :: "string option"
  kw_identity :: "string option"
  kw_behavior :: "string option"
  kw_use_gpt4 :: "bool option"

text \<open>
  A field declared with \<^verbatim>\<open>Field(description=...)\<close> alone is required; a field with a
  default takes it when the argument is absent. Validation reports every missing
  required field, in declaration order.
\<close>

definition missing_fields :: "config_kwargs \<Rightarrow> string list" where
  "missing_fields kw =
     (if kw_bot_token kw = None then [''bot_token''] else []) @
     (if kw_name kw = None then [''name''] else []) @
     (if kw_byline kw = None then [''byline''] else []) @
     (if kw_identity kw = None then [''identity''] else []) @
     (if kw_behavior kw = None then [''behavior''] else [])"

definition field_or :: "'a \<Rightarrow> 'a option \<Rightarrow> 'a" where
  "field_or d v = (case v of None \<Rightarrow> d | Some x \<Rightarrow> x)"

definition new_GirlFriendGPTConfig :: "config_kwargs \<Rightarrow> error + GirlFriendGPTConfig" where
  "new_GirlFriendGPTConfig kw =
     (if missing_fields kw \<noteq> [] then Inl (ValidationError (missing_fields kw))
      else Inr \<lparr>bot_token = field_or [] (kw_bot_token kw),
                elevenlabs_api_key = field_or [] (kw_elevenlabs_api_key kw),
                elevenlabs_voice_id = field_or [] (kw_elevenlabs_voice_id kw),
                chat_ids = field_or [] (kw_chat_ids kw),
                name = field_or [] (kw_name kw),
                byline = field_or [] (kw_byline kw),
                identity = field_or [] (kw_identity kw),
                behavior = field_or [] (kw_behavior kw),
                use_gpt4 = field_or True (kw_use_gpt4 kw)\<rparr>)"

subsection \<open>The conversation context\<close>

text \<open>
  \<^verbatim>\<open>EmitFunc = Callable[[List[Block], Metadata], None]\<close>: a callback acts on the world
  and may raise. The metadata is opaque (\<open>'m\<close>).
\<close>

type_synonym ('m, 's) EmitFunc = "block list \<Rightarrow> 'm \<Rightarrow> 's \<Rightarrow> error + 's"

record ('m, 's) AgentContext =
  chat_history_messages :: "block list"
  emit_funcs :: "('m, 's) EmitFunc list"
  metadata :: 'm

text \<open>
  A transport callback that only logs: each call appends the callback's name, the batch
  and the metadata to the delivery log. It stands for the platform's callbacks wherever a
  statement counts deliveries.
\<close>

type_synonym ('f, 'm) delivery_log = "('f \<times> block list \<times> 'm) list"

definition recording_emit :: "'f \<Rightarrow> ('m, ('f, 'm) delivery_log) EmitFunc" where
  "recording_emit f blocks md deliveries = Inr (deliveries @ [(f, blocks, md)])"

subsection \<open>The quota check\<close>

definition limit_notice :: "block list" where
  "limit_notice =
     [Block ''Thanks for trying out SachaGPT!'',
      Block ''Please deploy your own version GirlfriendGPT to continue chatting.'',
      Block ''Learn how on: https://github.com/EniasCailliau/GirlfriendGPT/'']"

text \<open>\<^verbatim>\<open>for func in context.emit_funcs: func([...], context.metadata)\<close>\<close>

fun emit_each :: "('m, 's) EmitFunc list \<Rightarrow> block list \<Rightarrow> 'm \<Rightarrow> 's \<Rightarrow> error + 's" where
  "emit_each [] blocks md s = Inr s"
| "emit_each (func # funcs) blocks md s =
     and_then (func blocks md s) (emit_each funcs blocks md)"

text \<open>
  \<^verbatim>\<open>hasattr(self.config, "chat_ids")\<close> holds of every configuration, the field being
  declared; a string is true when it is not empty. The division is Python's true
  division, so the count is compared as a rational number.
\<close>

definition limit_exceeded ::
  "GirlFriendGPTConfig \<Rightarrow> ('m, 's) AgentContext \<Rightarrow> 's \<Rightarrow> error + (bool \<times> 's)" where
  "limit_exceeded config context s =
     (if chat_ids config \<noteq> [] then
        (if real (length (chat_history_messages context)) / 2 > real MAX_FREE_MESSAGES then
           and_then (emit_each (emit_funcs context) limit_notice (metadata context) s)
             (\<lambda>s'. Inr (True, s'))
         else Inr (False, s))
      else Inr (False, s))"

subsection \<open>The speech tool\<close>

record GenerateSpeechTool =
  generator_plugin_config :: "(string \<times> string) list"

definition voice_tool :: "GirlFriendGPTConfig \<Rightarrow> GenerateSpeechTool option" where
  "voice_tool config =
     Some \<lparr>generator_plugin_config =
             [(''voice_id'', elevenlabs_voice_id config),
              (''elevenlabs_api_key'', elevenlabs_api_key config)]\<rparr>"

text \<open>
  \<^verbatim>\<open>speech.run\<close> belongs to the platform: it is a parameter, a fallible function from
  the tool, the batch and the context to a list of blocks.
\<close>

type_synonym ('m, 's) speech_run =
  "GenerateSpeechTool \<Rightarrow> block list \<Rightarrow> ('m, 's) AgentContext \<Rightarrow> error + block list"

text \<open>\<^verbatim>\<open>xs[0]\<close>\<close>

fun first_item :: "'a list \<Rightarrow> error + 'a" where
  "first_item [] = Inl IndexError"
| "first_item (item # items) = Inr item"

subsection \<open>The wrapped callback\<close>

text \<open>
  The body of the loop in \<^verbatim>\<open>wrapper\<close>, for one block. \<^verbatim>\<open>clean_text\<close> comes from
  \<^verbatim>\<open>tools.utils\<close>, which is not among the sources: it is a parameter, applied to
  \<^verbatim>\<open>block.text\<close>. The parameter \<open>context\<close> is the context object the closure
  holds, as the speech tool sees it when the callback runs.
\<close>

definition wrapper_body ::
  "(string option \<Rightarrow> string) \<Rightarrow> ('m, 's) speech_run \<Rightarrow> GenerateSpeechTool option \<Rightarrow>
   ('m, 's) AgentContext \<Rightarrow> ('m, 's) EmitFunc \<Rightarrow> 'm \<Rightarrow> block \<Rightarrow> 's \<Rightarrow> error + 's" where
  "wrapper_body clean_text run speech context emit_func md b s =
     (if is_text b then
        (let text = clean_text (block_text b) in
         if text \<noteq> [] then
           (let b' = b\<lparr>block_text := Some text\<rparr> in
            and_then (emit_func [b'] md s) (\<lambda>s1.
              case speech of
                None \<Rightarrow> Inr s1
              | Some tool \<Rightarrow>
                  and_then (run tool [b'] context) (\<lambda>out.
                  and_then (first_item out) (\<lambda>audio_block.
                    emit_func [set_public_data True audio_block] md s1))))
         else Inr s)
      else emit_func [b] md s)"

fun wrapper ::
  "(string option \<Rightarrow> string) \<Rightarrow> ('m, 's) speech_run \<Rightarrow> GenerateSpeechTool option \<Rightarrow>
   ('m, 's) AgentContext \<Rightarrow> ('m, 's) EmitFunc \<Rightarrow> block list \<Rightarrow> 'm \<Rightarrow> 's \<Rightarrow> error + 's" where
  "wrapper clean_text run speech context emit_func [] md s = Inr s"
| "wrapper clean_text run speech context emit_func (b # blocks) md s =
     and_then (wrapper_body clean_text run speech context emit_func md b s)
       (wrapper clean_text run speech context emit_func blocks md)"

definition wrap_emit ::
  "(string option \<Rightarrow> string) \<Rightarrow> ('m, 's) speech_run \<Rightarrow> GenerateSpeechTool option \<Rightarrow>
   ('m, 's) AgentContext \<Rightarrow> ('m, 's) EmitFunc \<Rightarrow> ('m, 's) EmitFunc" where
  "wrap_emit clean_text run speech context emit_func =
     wrapper clean_text run speech context emit_func"

subsection \<open>One agent turn\<close>

text \<open>
  \<^verbatim>\<open>context.emit_funcs = [wrap_emit(emit_func) for emit_func in context.emit_funcs]\<close>
  replaces the callbacks of the one context object that every wrapper holds. So when a
  wrapper runs, the context it hands to the speech tool carries the wrapped callbacks,
  each of which hands on the same context again. HOL has no cyclic value: the cycle is
  unrolled to a depth, the number of nested calls the interpreter still allows. A
  callback entered with no depth left raises \<^verbatim>\<open>RecursionError\<close>, as a tool that keeps
  calling the callbacks of its context makes the interpreter do.
\<close>

primrec wrapped_context ::
  "nat \<Rightarrow> (string option \<Rightarrow> string) \<Rightarrow> ('m, 's) speech_run \<Rightarrow> GenerateSpeechTool option \<Rightarrow>
   ('m, 's) AgentContext \<Rightarrow> ('m, 's) AgentContext" where
  "wrapped_context 0 clean_text run speech context =
     context\<lparr>emit_funcs :=
       map (\<lambda>emit_func blocks md s. Inl RecursionError) (emit_funcs context)\<rparr>"
| "wrapped_context (Suc depth) clean_text run speech context =
     context\<lparr>emit_funcs :=
       map (wrap_emit clean_text run speech
              (wrapped_context depth clean_text run speech context))
         (emit_funcs context)\<rparr>"

text \<open>
  \<^verbatim>\<open>super().run_agent\<close> is the platform's agent loop, a parameter: given the agent and
  the context it acts on the world. The result of a turn records whether that loop was
  entered.
\<close>

record 's turn =
  world :: 's
  agent_invoked :: bool

definition run_agent ::
  "GirlFriendGPTConfig \<Rightarrow> (string option \<Rightarrow> string) \<Rightarrow> ('m, 's) speech_run \<Rightarrow>
   ('a \<Rightarrow> ('m, 's) AgentContext \<Rightarrow> 's \<Rightarrow> error + 's) \<Rightarrow>
   nat \<Rightarrow> 'a \<Rightarrow> ('m, 's) AgentContext \<Rightarrow> 's \<Rightarrow> error + 's turn" where
  "run_agent config clean_text run super_run_agent depth agent context s =
     and_then (limit_exceeded config context s) (\<lambda>(exceeded, s0).
       if exceeded then Inr \<lparr>world = s0, agent_invoked = False\<rparr>
       else
         (let speech = voice_tool config;
              context' = wrapped_context depth clean_text run speech context
          in and_then (super_run_agent agent context' s0)
               (\<lambda>s1. Inr \<lparr>world = s1, agent_invoked = True\<rparr>)))"

subsection \<open>The system prompt and the constructor\<close>

definition SYSTEM_PROMPT :: string where
  "SYSTEM_PROMPT =
      ''You are {self.name}, {self.byline}.\<newline>'' @
      ''\<newline>'' @
      ''Who you are:\<newline>'' @
      ''\<newline>'' @
      ''{identity_str}\<newline>'' @
      ''\<newline>'' @
      ''How you behave:\<newline>'' @
      ''\<newline>'' @
      ''{behavior_str}\<newline>'' @
      ''\<newline>'' @
      ''NOTE: Some functions return images, video, and audio files. These multimedia files will be represented in messages as\<newline>'' @
      ''UUIDs for Steamship Blocks. When responding directly to a user, you SHOULD print the Steamship Blocks for the images,\<newline>'' @
      ''video, or audio as follows: `Block(UUID for the block)`.\<newline>'' @
      ''\<newline>'' @
      ''Example response for a request that generated an image:\<newline>'' @
      ''Here is the image you requested: Block(288A2CA1-4753-4298-9716-53C1E42B726B).\<newline>'' @
      ''\<newline>'' @
      ''Only use the functions you have been provided with.\<newline>''"

text \<open>
  \<^verbatim>\<open>str.format\<close> with keyword arguments only, all of them strings. The template is read
  from left to right: \<^verbatim>\<open>{{\<close> and \<^verbatim>\<open>}}\<close> are literal braces, \<^verbatim>\<open>{field}\<close> is replaced
  by the value of its argument, and the first failure ends the call. The argument's name
  is the field up to the first \<^verbatim>\<open>.\<close> or \<^verbatim>\<open>[\<close> (before any \<^verbatim>\<open>!\<close> or \<^verbatim>\<open>:\<close>); an empty or
  numeric name is positional, and there are no positional arguments. What Python does
  with an attribute, an index, a conversion or a format spec on an argument that is
  present is not modelled (\<open>OutsideModel\<close>); neither is a brace inside a field.
\<close>

definition is_digit :: "char \<Rightarrow> bool" where
  "is_digit c = (c \<in> set ''0123456789'')"

definition get_field :: "(string \<times> string) list \<Rightarrow> string \<Rightarrow> error + string" where
  "get_field kwargs field =
     (let field_name = takeWhile (\<lambda>c. c \<noteq> CHR ''!'' \<and> c \<noteq> CHR '':'') field;
          arg_name = takeWhile (\<lambda>c. c \<noteq> CHR ''.'' \<and> c \<noteq> CHR ''['') field_name
      in if list_all is_digit arg_name then Inl IndexError
         else case map_of kwargs arg_name of
                None \<Rightarrow> Inl (KeyError arg_name)
              | Some v \<Rightarrow> if arg_name = field then Inr v else Inl (OutsideModel field))"

datatype scan_mode = Literal | Opened | Closed | Field string

fun str_format_from :: "(string \<times> string) list \<Rightarrow> scan_mode \<Rightarrow> string \<Rightarrow> error + string" where
  "str_format_from kwargs m [] =
     (case m of
        Literal \<Rightarrow> Inr []
      | Opened \<Rightarrow> Inl (ValueError ''Single { encountered in format string'')
      | Closed \<Rightarrow> Inl (ValueError ''Single } encountered in format string'')
      | Field acc \<Rightarrow> Inl (ValueError ''expected } before end of string''))"
| "str_format_from kwargs m (c # cs) =
     (case m of
        Literal \<Rightarrow>
          if c = CHR ''{'' then str_format_from kwargs Opened cs
          else if c = CHR ''}'' then str_format_from kwargs Closed cs
          else and_then (str_format_from kwargs Literal cs) (\<lambda>rest. Inr (c # rest))
      | Opened \<Rightarrow>
          if c = CHR ''{'' then
            and_then (str_format_from kwargs Literal cs) (\<lambda>rest. Inr (CHR ''{'' # rest))
          else if c = CHR ''}'' then
            and_then (get_field kwargs []) (\<lambda>v.
            and_then (str_format_from kwargs Literal cs) (\<lambda>rest. Inr (v @ rest)))
          else str_format_from kwargs (Field [c]) cs
      | Closed \<Rightarrow>
          if c = CHR ''}'' then
            and_then (str_format_from kwargs Literal cs) (\<lambda>rest. Inr (CHR ''}'' # rest))
          else Inl (ValueError ''Single } encountered in format string'')
      | Field acc \<Rightarrow>
          if c = CHR ''}'' then
            and_then (get_field kwargs acc) (\<lambda>v.
            and_then (str_format_from kwargs Literal cs) (\<lambda>rest. Inr (v @ rest)))
          else if c = CHR ''{'' then Inl (OutsideModel acc)
          else str_format_from kwargs (Field (acc @ [c])) cs)"

definition str_format :: "string \<Rightarrow> (string \<times> string) list \<Rightarrow> error + string" where
  "str_format template kwargs = str_format_from kwargs Literal template"

text \<open>
  \<^verbatim>\<open>GirlfriendGPT.__init__\<close>. The platform's constructors (the base service, the agent,
  the tools, the mixins) are taken to succeed; what remains is the choice of the model,
  the formatting of the prompt and the list of mixins added after it.
\<close>

record GirlfriendGPT =
  service_config :: GirlFriendGPTConfig
  agent_model_name :: string
  agent_tools :: "string list"
  agent_PROMPT :: string
  service_mixins :: "string list"

definition GirlfriendGPT_init :: "GirlFriendGPTConfig \<Rightarrow> error + GirlfriendGPT" where
  "GirlfriendGPT_init config =
     (let model_name = (if use_gpt4 config then ''gpt-4'' else ''gpt-3.5-turbo'') in
      and_then
        (str_format SYSTEM_PROMPT
           [(''name'', name config),
            (''byline'', byline config),
            (''identity'', identity config),
            (''behavior'', behavior config)])
        (\<lambda>prompt.
           Inr \<lparr>service_config = config,
                agent_model_name = model_name,
                agent_tools = [''SearchTool'', ''SelfieTool'', ''VideoMessageTool''],
                agent_PROMPT = prompt,
                service_mixins =
                  [''SteamshipWidgetTransport'', ''TelegramTransport'',
                   ''IndexerPipelineMixin'']\<rparr>))"

subsection \<open>The sanitizer\<close>


subsection \<open>A sample environment\<close>

text \<open>
  Concrete stand-ins for the platform, used where a statement is evaluated on an input:
  a sanitizer that cuts the text at the first \<^verbatim>\<open><\<close> and drops trailing blanks, a speech
  tool that returns one audio block referring to the spoken text, and an agent loop
  that plays a script of emissions, each through the callback at a given position of the
  context's list.
\<close>

definition sample_strip :: "string \<Rightarrow> string" where
  "sample_strip raw =
     rev (dropWhile (\<lambda>c. c = CHR '' '') (rev (takeWhile (\<lambda>c. c \<noteq> CHR ''<'') raw)))"

definition sample_clean_text :: "string option \<Rightarrow> string" where
  "sample_clean_text t = (case t of None \<Rightarrow> [] | Some raw \<Rightarrow> sample_strip raw)"

definition sample_speech_run :: "('m, 's) speech_run" where
  "sample_speech_run tool blocks context =
     Inr [\<lparr>block_text = None, mime_type = Some AUDIO,
           content_url = Some (concat (map (\<lambda>b. field_or [] (block_text b)) blocks)),
           public_data = False\<rparr>]"

fun scripted_run_agent ::
  "(nat \<times> block list) list \<Rightarrow> ('m, 's) AgentContext \<Rightarrow> 's \<Rightarrow> error + 's" where
  "scripted_run_agent [] context s = Inr s"
| "scripted_run_agent ((i, blocks) # script) context s =
     (if i < length (emit_funcs context) then
        and_then ((emit_funcs context ! i) blocks (metadata context) s)
          (scripted_run_agent script context)
      else Inl IndexError)"

definition text_block :: "string \<Rightarrow> block" where
  "text_block t =
     \<lparr>block_text = Some t, mime_type = Some TXT, content_url = None, public_data = False\<rparr>"

definition image_block :: "string \<Rightarrow> block" where
  "image_block url =
     \<lparr>block_text = None, mime_type = Some IMAGE, content_url = Some url, public_data = False\<rparr>"

definition sample_config :: "string \<Rightarrow> GirlFriendGPTConfig" where
  "sample_config ids =
     \<lparr>bot_token = ''token'', elevenlabs_api_key = [], elevenlabs_voice_id = [],
      chat_ids = ids, name = ''Sacha'', byline = ''a companion'',
      identity = ''curious'', behavior = ''kind'', use_gpt4 = True\<rparr>"

definition sample_context ::
  "nat \<Rightarrow> string list \<Rightarrow> (unit, (string, unit) delivery_log) AgentContext" where
  "sample_context n callbacks =
     \<lparr>chat_history_messages = replicate n (text_block ''hi''),
      emit_funcs = map recording_emit callbacks,
      metadata = ()\<rparr>"

section \<open>Properties\<close>

subsection \<open>Sequencing and the loop of the wrapped callback\<close>

lemma and_then_Inl: "and_then (Inl e) k = Inl e"
  by (simp add: and_then_def)

lemma and_then_Inr: "and_then (Inr x) k = k x"
  by (simp add: and_then_def)

lemma and_then_seq:
  "and_then (and_then r f) g = and_then r (\<lambda>x. and_then (f x) g)"
  by (cases r) (simp_all add: and_then_def)

lemma emit_each_recording:
  "emit_each (map recording_emit callbacks) blocks md deliveries =
   Inr (deliveries @ map (\<lambda>f. (f, blocks, md)) callbacks)"
  by (induction callbacks arbitrary: deliveries)
     (simp_all add: and_then_def recording_emit_def)

lemma wrapper_append:
  "wrapper clean_text run speech context emit_func (before @ after) md s =
   and_then (wrapper clean_text run speech context emit_func before md s)
     (wrapper clean_text run speech context emit_func after md)"
proof (induction before arbitrary: s)
  case Nil
  show ?case by (simp add: and_then_Inr)
next
  case (Cons b before)
  show ?case
  proof (cases "wrapper_body clean_text run speech context emit_func md b s")
    case (Inl e)
    then show ?thesis by (simp add: and_then_Inl)
  next
    case (Inr s1)
    then show ?thesis by (simp add: and_then_Inr Cons.IH)
  qed
qed

lemma wrapper_middle:
  "wrapper clean_text run speech context emit_func (before @ b # after) md s =
   and_then (wrapper clean_text run speech context emit_func before md s) (\<lambda>s1.
   and_then (wrapper_body clean_text run speech context emit_func md b s1)
     (wrapper clean_text run speech context emit_func after md))"
proof (cases "wrapper clean_text run speech context emit_func before md s")
  case (Inl e)
  then show ?thesis by (simp add: wrapper_append and_then_Inl)
next
  case (Inr s1)
  then show ?thesis by (simp add: wrapper_append and_then_Inr)
qed

lemma wrapper_body_text:
  assumes "is_text b" and "clean_text (block_text b) = t" and "t \<noteq> []"
  shows "wrapper_body clean_text run speech context emit_func md b s =
         and_then (emit_func [b\<lparr>block_text := Some t\<rparr>] md s) (\<lambda>s1.
           case speech of
             None \<Rightarrow> Inr s1
           | Some tool \<Rightarrow>
               and_then (run tool [b\<lparr>block_text := Some t\<rparr>] context) (\<lambda>out.
               and_then (first_item out) (\<lambda>audio_block.
                 emit_func [set_public_data True audio_block] md s1)))"
  using assms by (simp add: wrapper_body_def Let_def)


lemma wrapper_body_other:
  assumes "\<not> is_text b"
  shows "wrapper_body clean_text run speech context emit_func md b s = emit_func [b] md s"
  using assms by (simp add: wrapper_body_def)

text \<open>
  With a logging callback, what one block adds to the log does not depend on what the
  log already holds.
\<close>

lemma wrapper_body_recording:
  "wrapper_body clean_text run speech context (recording_emit f) md b deliveries =
   and_then (wrapper_body clean_text run speech context (recording_emit f) md b [])
     (\<lambda>out. Inr (deliveries @ out))"
  by (simp add: wrapper_body_def recording_emit_def and_then_def Let_def
      split: option.splits sum.splits)

text \<open>Evaluation of the sample environment.\<close>

lemmas sample_defs =
  sample_config_def sample_context_def sample_clean_text_def sample_strip_def
  sample_speech_run_def text_block_def image_block_def

lemmas run_defs =
  run_agent_def limit_exceeded_def MAX_FREE_MESSAGES_def voice_tool_def wrap_emit_def
  wrapper_body_def recording_emit_def and_then_def set_public_data_def
  is_text_def field_or_def Let_def

subsection \<open>The constructor\<close>

text \<open>
  Whatever follows the first line of the template, formatting stops at its first field.
\<close>

lemma format_first_field_unknown:
  "str_format_from
     [(''name'', n), (''byline'', b), (''identity'', i), (''behavior'', h)] Literal
     (''You are {self.name}, {self.byline}.\<newline>'' @ rest) =
   Inl (KeyError ''self'')"
  by (simp add: get_field_def and_then_def is_digit_def)

text \<open>
  C9. For every configuration the constructor fails where it formats the system prompt:
  \<^verbatim>\<open>format\<close> is given the keywords \<^verbatim>\<open>name\<close>, \<^verbatim>\<open>byline\<close>, \<^verbatim>\<open>identity\<close> and
  \<^verbatim>\<open>behavior\<close>, the first field of the template is \<^verbatim>\<open>{self.name}\<close>, whose argument
  \<^verbatim>\<open>self\<close> is none of them, and the lookup raises \<^verbatim>\<open>KeyError\<close>. No service is built.
\<close>

theorem init_fails_at_prompt_format:
  "GirlfriendGPT_init config = Inl (KeyError ''self'')"
  unfolding GirlfriendGPT_init_def str_format_def SYSTEM_PROMPT_def Let_def
  by (simp only: format_first_field_unknown and_then_Inl)

theorem init_fails_at_prompt_format_witness:
  "GirlfriendGPT_init (sample_config ''1001,1002'') = Inl (KeyError ''self'')"
  using init_fails_at_prompt_format [of "sample_config ''1001,1002''"] by simp

subsection \<open>The wrapped callback\<close>

text \<open>
  C3. A text block of a batch whose sanitized text \<open>t\<close> is not empty, with a speech tool
  present whose run returns a list that starts with the block \<open>audio\<close>: between the
  blocks before it and the blocks after it, the wrapped callback calls the original
  callback exactly twice, first with the block carrying the text \<open>t\<close>, then with the
  audio block made from that block, its public flag set.
\<close>

theorem text_with_speech_delivers_text_then_audio:
  assumes "is_text b"
    and "clean_text (block_text b) = t"
    and "t \<noteq> []"
    and "run tool [b\<lparr>block_text := Some t\<rparr>] context = Inr (audio # others)"
  shows "wrapper clean_text run (Some tool) context emit_func (before @ b # after) md s =
         and_then (wrapper clean_text run (Some tool) context emit_func before md s) (\<lambda>s1.
         and_then (emit_func [b\<lparr>block_text := Some t\<rparr>] md s1) (\<lambda>s2.
         and_then (emit_func [audio\<lparr>public_data := True\<rparr>] md s2)
           (wrapper clean_text run (Some tool) context emit_func after md)))"
proof -
  have body: "wrapper_body clean_text run (Some tool) context emit_func md b s1 =
        and_then (emit_func [b\<lparr>block_text := Some t\<rparr>] md s1) (\<lambda>s2.
          emit_func [audio\<lparr>public_data := True\<rparr>] md s2)" for s1
    using assms
    by (simp add: wrapper_body_text and_then_Inr set_public_data_def)
  show ?thesis
    by (simp only: wrapper_middle body and_then_seq)
qed

theorem text_with_speech_delivers_text_then_audio_witness:
  "is_text (Block ''hello <script>'') \<and>
   sample_clean_text (block_text (Block ''hello <script>'')) = ''hello'' \<and>
   ''hello'' \<noteq> [] \<and>
   sample_speech_run \<lparr>generator_plugin_config = []\<rparr>
     [(Block ''hello <script>'')\<lparr>block_text := Some ''hello''\<rparr>]
     (sample_context 2 [''telegram'']) =
     Inr [\<lparr>block_text = None, mime_type = Some AUDIO, content_url = Some ''hello'',
           public_data = False\<rparr>] \<and>
   wrapper sample_clean_text sample_speech_run (Some \<lparr>generator_plugin_config = []\<rparr>)
     (sample_context 2 [''telegram'']) (recording_emit ''telegram'')
     ([] @ Block ''hello <script>'' # [image_block ''ref'']) () [] =
   Inr [(''telegram'', [Block ''hello''], ()),
        (''telegram'',
         [\<lparr>block_text = None, mime_type = Some AUDIO, content_url = Some ''hello'',
           public_data = True\<rparr>], ()),
        (''telegram'', [image_block ''ref''], ())]"
proof -
  have h1: "is_text (Block ''hello <script>'')"
    by (simp add: is_text_def Block_def)
  have h2: "sample_clean_text (block_text (Block ''hello <script>'')) = ''hello''"
    by (simp add: sample_defs Block_def)
  have h3: "''hello'' \<noteq> []" by simp
  have h4: "sample_speech_run \<lparr>generator_plugin_config = []\<rparr>
     [(Block ''hello <script>'')\<lparr>block_text := Some ''hello''\<rparr>]
     (sample_context 2 [''telegram'']) =
     Inr (\<lparr>block_text = None, mime_type = Some AUDIO, content_url = Some ''hello'',
           public_data = False\<rparr> # [])"
    by (simp add: sample_speech_run_def Block_def field_or_def)
  note inst = text_with_speech_delivers_text_then_audio
    [of "Block ''hello <script>''" sample_clean_text "''hello''" sample_speech_run
       "\<lparr>generator_plugin_config = []\<rparr>" "sample_context 2 [''telegram'']"
       "\<lparr>block_text = None, mime_type = Some AUDIO,
         content_url = Some ''hello'', public_data = False\<rparr>"
       "[]" "recording_emit ''telegram''" "[]" "[image_block ''ref'']" "()" "[]",
     OF h1 h2 h3 h4]
  show ?thesis
    using h1 h2 h3 h4 inst
    by (simp add: run_defs Block_def image_block_def)
qed

text \<open>
  C4, as the code has it. A text block of a batch whose sanitized text \<open>t\<close> is not empty,
  when the wrapped callback holds no speech tool (\<open>None\<close>): between the blocks before
  it and the blocks after it, the original callback is called exactly once, with the
  block carrying the text \<open>t\<close>; no speech is run and no audio block is delivered.
\<close>

theorem text_without_speech_delivers_text_only:
  assumes "is_text b"
    and "clean_text (block_text b) = t"
    and "t \<noteq> []"
  shows "wrapper clean_text run None context emit_func (before @ b # after) md s =
         and_then (wrapper clean_text run None context emit_func before md s) (\<lambda>s1.
         and_then (emit_func [b\<lparr>block_text := Some t\<rparr>] md s1)
           (wrapper clean_text run None context emit_func after md))"
proof -
  have body: "wrapper_body clean_text run None context emit_func md b s1 =
        emit_func [b\<lparr>block_text := Some t\<rparr>] md s1" for s1
    using assms
    by (cases "emit_func [b\<lparr>block_text := Some t\<rparr>] md s1")
       (simp_all add: wrapper_body_text and_then_Inr and_then_Inl)
  show ?thesis
    by (simp only: wrapper_middle body)
qed

theorem text_without_speech_delivers_text_only_witness:
  "is_text (text_block ''good morning '') \<and>
   sample_clean_text (block_text (text_block ''good morning '')) = ''good morning'' \<and>
   ''good morning'' \<noteq> [] \<and>
   wrapper sample_clean_text sample_speech_run None
     (sample_context 2 [''widget'']) (recording_emit ''widget'')
     ([image_block ''a''] @ text_block ''good morning '' # [image_block ''b'']) () [] =
   Inr [(''widget'', [image_block ''a''], ()),
        (''widget'', [text_block ''good morning''], ()),
        (''widget'', [image_block ''b''], ())]"
proof -
  have h1: "is_text (text_block ''good morning '')"
    by (simp add: is_text_def text_block_def)
  have h2: "sample_clean_text (block_text (text_block ''good morning '')) = ''good morning''"
    by (simp add: sample_defs)
  have h3: "''good morning'' \<noteq> []" by simp
  note inst = text_without_speech_delivers_text_only
    [of "text_block ''good morning ''" sample_clean_text "''good morning''"
       sample_speech_run "sample_context 2 [''widget'']" "recording_emit ''widget''"
       "[image_block ''a'']" "[image_block ''b'']" "()" "[]", OF h1 h2 h3]
  show ?thesis
    using h1 h2 h3 inst
    by (simp add: run_defs text_block_def image_block_def)
qed

text \<open>
  C4, as the spec has it, ties the absence of the speech tool to the absence of voice
  credentials. It fails on a configuration whose \<^verbatim>\<open>elevenlabs_api_key\<close> and
  \<^verbatim>\<open>elevenlabs_voice_id\<close> are empty: \<^verbatim>\<open>voice_tool\<close> still returns a tool, and a turn
  that emits the text \<^verbatim>\<open>hi\<close> delivers two messages, the text and an audio block.
\<close>

theorem absent_credentials_still_deliver_audio:
  "elevenlabs_api_key (sample_config []) = [] \<and>
   elevenlabs_voice_id (sample_config []) = [] \<and>
   run_agent (sample_config []) sample_clean_text sample_speech_run scripted_run_agent 3
     [(0, [Block ''hi''])] (sample_context 0 [''telegram'']) [] =
   Inr \<lparr>world =
          [(''telegram'', [Block ''hi''], ()),
           (''telegram'',
            [\<lparr>block_text = None, mime_type = Some AUDIO, content_url = Some ''hi'',
              public_data = True\<rparr>], ())],
        agent_invoked = True\<rparr>"
  by (simp add: run_defs sample_defs Block_def eval_nat_numeral)

text \<open>
  C7. A block of a batch that is not text (its media type is not text, or it has no
  media type and no text, so not one built by \<^verbatim>\<open>Block(text=...)\<close> with a text that is
  not empty): between the blocks before it and the blocks
  after it, the original callback is called exactly once, with the block as it was
  received. The sanitizer is not applied to it, no field is written and no speech is run.
\<close>

theorem non_text_delivered_once_unchanged:
  assumes "\<not> is_text b"
  shows "wrapper clean_text run speech context emit_func (before @ b # after) md s =
         and_then (wrapper clean_text run speech context emit_func before md s) (\<lambda>s1.
         and_then (emit_func [b] md s1)
           (wrapper clean_text run speech context emit_func after md))"
proof -
  have body: "wrapper_body clean_text run speech context emit_func md b s1 =
        emit_func [b] md s1" for s1
    using assms by (rule wrapper_body_other)
  show ?thesis
    by (simp only: wrapper_middle body)
qed

theorem non_text_delivered_once_unchanged_witness:
  "\<not> is_text (image_block ''photo'') \<and>
   wrapper sample_clean_text sample_speech_run (Some \<lparr>generator_plugin_config = []\<rparr>)
     (sample_context 2 [''telegram'']) (recording_emit ''telegram'')
     ([] @ image_block ''photo'' # []) () [] =
   Inr [(''telegram'', [image_block ''photo''], ())]"
proof -
  have h1: "\<not> is_text (image_block ''photo'')"
    by (simp add: is_text_def image_block_def)
  note inst = non_text_delivered_once_unchanged
    [of "image_block ''photo''" sample_clean_text sample_speech_run
       "Some \<lparr>generator_plugin_config = []\<rparr>" "sample_context 2 [''telegram'']"
       "recording_emit ''telegram''" "[]" "[]" "()" "[]", OF h1]
  show ?thesis
    using h1 inst by (simp add: run_defs image_block_def)
qed



text \<open>
  C6. A batch handed to a wrapped callback is processed block by block in input order.
  With a logging callback, the log after the batch is the log before it followed by
  what each block delivers on its own, in the order of the batch: the deliveries of
  one block (its text, then its audio) all come before those of the next.
\<close>

theorem batch_processed_in_order:
  assumes "wrapper clean_text run speech context (recording_emit f) blocks md deliveries =
           Inr deliveries'"
  shows "deliveries' =
         deliveries @
         concat (map (\<lambda>b. case wrapper clean_text run speech context (recording_emit f) [b] md []
                           of Inl e \<Rightarrow> [] | Inr out \<Rightarrow> out) blocks)"
  using assms
proof (induction blocks arbitrary: deliveries deliveries')
  case Nil
  then show ?case by simp
next
  case (Cons b blocks)
  obtain out where body:
    "wrapper_body clean_text run speech context (recording_emit f) md b [] = Inr out"
    using Cons.prems
    by (cases "wrapper_body clean_text run speech context (recording_emit f) md b []")
       (simp_all add: wrapper_body_recording [of _ _ _ _ _ _ _ deliveries] and_then_Inl)
  have step: "wrapper clean_text run speech context (recording_emit f) blocks md
                (deliveries @ out) = Inr deliveries'"
    using Cons.prems
    by (simp add: wrapper_body_recording [of _ _ _ _ _ _ _ deliveries] body and_then_Inr)
  have single: "wrapper clean_text run speech context (recording_emit f) [b] md [] = Inr out"
    by (simp add: body and_then_Inr)
  show ?case
    using Cons.IH [OF step] by (simp add: single del: wrapper.simps)
qed

theorem batch_processed_in_order_witness:
  "wrapper sample_clean_text sample_speech_run (Some \<lparr>generator_plugin_config = []\<rparr>)
     (sample_context 2 [''telegram'']) (recording_emit ''telegram'')
     [text_block ''one'', image_block ''pic'', text_block ''<i>'', text_block ''two''] ()
     [(''telegram'', [image_block ''earlier''], ())] =
   Inr [(''telegram'', [image_block ''earlier''], ()),
        (''telegram'', [text_block ''one''], ()),
        (''telegram'',
         [\<lparr>block_text = None, mime_type = Some AUDIO, content_url = Some ''one'',
           public_data = True\<rparr>], ()),
        (''telegram'', [image_block ''pic''], ()),
        (''telegram'', [text_block ''two''], ()),
        (''telegram'',
         [\<lparr>block_text = None, mime_type = Some AUDIO, content_url = Some ''two'',
           public_data = True\<rparr>], ())] \<and>
   [(''telegram'', [image_block ''earlier''], ()),
    (''telegram'', [text_block ''one''], ()),
    (''telegram'',
     [\<lparr>block_text = None, mime_type = Some AUDIO, content_url = Some ''one'',
       public_data = True\<rparr>], ()),
    (''telegram'', [image_block ''pic''], ()),
    (''telegram'', [text_block ''two''], ()),
    (''telegram'',
     [\<lparr>block_text = None, mime_type = Some AUDIO, content_url = Some ''two'',
       public_data = True\<rparr>], ())] =
   [(''telegram'', [image_block ''earlier''], ())] @
   concat (map (\<lambda>b. case wrapper sample_clean_text sample_speech_run
                          (Some \<lparr>generator_plugin_config = []\<rparr>)
                          (sample_context 2 [''telegram'']) (recording_emit ''telegram'')
                          [b] () []
                      of Inl e \<Rightarrow> [] | Inr out \<Rightarrow> out)
             [text_block ''one'', image_block ''pic'', text_block ''<i>'', text_block ''two''])"
proof -
  have run: "wrapper sample_clean_text sample_speech_run (Some \<lparr>generator_plugin_config = []\<rparr>)
     (sample_context 2 [''telegram'']) (recording_emit ''telegram'')
     [text_block ''one'', image_block ''pic'', text_block ''<i>'', text_block ''two''] ()
     [(''telegram'', [image_block ''earlier''], ())] =
   Inr [(''telegram'', [image_block ''earlier''], ()),
        (''telegram'', [text_block ''one''], ()),
        (''telegram'',
         [\<lparr>block_text = None, mime_type = Some AUDIO, content_url = Some ''one'',
           public_data = True\<rparr>], ()),
        (''telegram'', [image_block ''pic''], ()),
        (''telegram'', [text_block ''two''], ()),
        (''telegram'',
         [\<lparr>block_text = None, mime_type = Some AUDIO, content_url = Some ''two'',
           public_data = True\<rparr>], ())]"
    by (simp add: run_defs sample_defs)
  show ?thesis
    using run batch_processed_in_order [OF run] by simp
qed

subsection \<open>The quota check and the turn\<close>

text \<open>
  C1. When the allowlist \<^verbatim>\<open>chat_ids\<close> is not empty and the number of messages of the
  conversation divided by two exceeds 5, the turn sends one batch, the three fixed
  notices, through every original callback (logging callbacks here, in the order of
  the context's list) and returns; the agent loop is not entered, whatever it is.
\<close>

theorem quota_exceeded_emits_notice_only:
  assumes "chat_ids config \<noteq> []"
    and "real (length (chat_history_messages context)) / 2 > 5"
    and "emit_funcs context = map recording_emit callbacks"
  shows "run_agent config clean_text run super_run_agent depth agent context deliveries =
         Inr \<lparr>world =
                deliveries @
                map (\<lambda>f. (f,
                       [Block ''Thanks for trying out SachaGPT!'',
                        Block ''Please deploy your own version GirlfriendGPT to continue chatting.'',
                        Block ''Learn how on: https://github.com/EniasCailliau/GirlfriendGPT/''],
                       metadata context)) callbacks,
              agent_invoked = False\<rparr>"
  using assms
  by (simp add: run_agent_def limit_exceeded_def MAX_FREE_MESSAGES_def emit_each_recording
      and_then_Inr limit_notice_def)

theorem quota_exceeded_emits_notice_only_witness:
  "chat_ids (sample_config ''1001,1002'') \<noteq> [] \<and>
   real (length (chat_history_messages (sample_context 12 [''telegram'', ''widget'']))) / 2 > 5 \<and>
   emit_funcs (sample_context 12 [''telegram'', ''widget'']) =
     map recording_emit [''telegram'', ''widget''] \<and>
   run_agent (sample_config ''1001,1002'') sample_clean_text sample_speech_run
     scripted_run_agent 3 [(0, [text_block ''hello''])]
     (sample_context 12 [''telegram'', ''widget'']) [] =
   Inr \<lparr>world =
          [(''telegram'',
            [Block ''Thanks for trying out SachaGPT!'',
             Block ''Please deploy your own version GirlfriendGPT to continue chatting.'',
             Block ''Learn how on: https://github.com/EniasCailliau/GirlfriendGPT/''], ()),
           (''widget'',
            [Block ''Thanks for trying out SachaGPT!'',
             Block ''Please deploy your own version GirlfriendGPT to continue chatting.'',
             Block ''Learn how on: https://github.com/EniasCailliau/GirlfriendGPT/''], ())],
        agent_invoked = False\<rparr>"
proof -
  have h1: "chat_ids (sample_config ''1001,1002'') \<noteq> []"
    by (simp add: sample_config_def)
  have h2: "real (length (chat_history_messages (sample_context 12 [''telegram'', ''widget'']))) / 2 > 5"
    by (simp add: sample_context_def)
  have h3: "emit_funcs (sample_context 12 [''telegram'', ''widget'']) =
     map recording_emit [''telegram'', ''widget'']"
    by (simp add: sample_context_def)
  note inst = quota_exceeded_emits_notice_only
    [OF h1 h2 h3, of sample_clean_text sample_speech_run scripted_run_agent 3
       "[(0, [text_block ''hello''])]" "[]"]
  show ?thesis
    using h1 h2 h3 inst by (simp add: sample_context_def)
qed

text \<open>
  C2. When the allowlist \<^verbatim>\<open>chat_ids\<close> is empty, the quota check answers false and
  emits nothing, whatever the length of the history, and the turn enters the agent
  loop with the wrapped callbacks.
\<close>

theorem no_allowlist_never_limits:
  assumes "chat_ids config = []"
  shows "limit_exceeded config context s = Inr (False, s) \<and>
         run_agent config clean_text run super_run_agent depth agent context s =
         and_then
           (super_run_agent agent
              (wrapped_context depth clean_text run (voice_tool config) context) s)
           (\<lambda>s1. Inr \<lparr>world = s1, agent_invoked = True\<rparr>) \<and>
         wrapped_context (Suc depth) clean_text run (voice_tool config) context =
         context\<lparr>emit_funcs :=
           map (wrap_emit clean_text run (voice_tool config)
                  (wrapped_context depth clean_text run (voice_tool config) context))
             (emit_funcs context)\<rparr>"
  using assms
  by (simp add: run_agent_def limit_exceeded_def and_then_Inr)

theorem no_allowlist_never_limits_witness:
  "chat_ids (sample_config []) = [] \<and>
   limit_exceeded (sample_config []) (sample_context 40 [''telegram'']) [] = Inr (False, []) \<and>
   run_agent (sample_config []) sample_clean_text sample_speech_run scripted_run_agent 3
     [(0, [image_block ''selfie''])] (sample_context 40 [''telegram'']) [] =
   Inr \<lparr>world = [(''telegram'', [image_block ''selfie''], ())], agent_invoked = True\<rparr>"
proof -
  have h1: "chat_ids (sample_config []) = []"
    by (simp add: sample_config_def)
  note inst = no_allowlist_never_limits
    [OF h1, of "sample_context 40 [''telegram'']" "[]" sample_clean_text sample_speech_run
       scripted_run_agent 3 "[(0, [image_block ''selfie''])]"]
  show ?thesis
    using h1 inst
    by (simp add: sample_context_def image_block_def wrap_emit_def wrapper_body_def
        recording_emit_def and_then_def is_text_def eval_nat_numeral)
qed

text \<open>
  C10. For every configuration \<^verbatim>\<open>voice_tool\<close> returns a tool, never \<open>None\<close>, also when
  both voice credentials are empty. So on every turn that passes the quota check the
  agent loop is given callbacks wrapped around that tool, and each of them, for every
  text block of a batch whose sanitized text \<open>t\<close> is not empty, takes the audio branch:
  it delivers the text, runs the speech tool on it and delivers the first block of the
  result with its public flag set. A failure of the speech run, or an empty result,
  ends the call with that error.
\<close>

theorem voice_tool_never_none:
  "voice_tool config =
     Some \<lparr>generator_plugin_config =
             [(''voice_id'', elevenlabs_voice_id config),
              (''elevenlabs_api_key'', elevenlabs_api_key config)]\<rparr> \<and>
   (limit_exceeded config context s = Inr (False, s) \<longrightarrow>
    run_agent config clean_text run super_run_agent (Suc depth) agent context s =
      and_then
        (super_run_agent agent
           (context\<lparr>emit_funcs :=
              map (wrap_emit clean_text run (voice_tool config)
                     (wrapped_context depth clean_text run (voice_tool config) context))
                (emit_funcs context)\<rparr>) s)
        (\<lambda>s1. Inr \<lparr>world = s1, agent_invoked = True\<rparr>)) \<and>
   (is_text b \<and> clean_text (block_text b) = t \<and> t \<noteq> [] \<longrightarrow>
    wrap_emit clean_text run (voice_tool config) inner emit_func (before @ b # after) md s0 =
      and_then (wrap_emit clean_text run (voice_tool config) inner emit_func before md s0)
        (\<lambda>s1.
      and_then (emit_func [b\<lparr>block_text := Some t\<rparr>] md s1) (\<lambda>s2.
      and_then (run \<lparr>generator_plugin_config =
                       [(''voice_id'', elevenlabs_voice_id config),
                        (''elevenlabs_api_key'', elevenlabs_api_key config)]\<rparr>
                  [b\<lparr>block_text := Some t\<rparr>] inner) (\<lambda>out.
      and_then (first_item out) (\<lambda>audio_block.
      and_then (emit_func [set_public_data True audio_block] md s2)
        (wrap_emit clean_text run (voice_tool config) inner emit_func after md))))))"
proof -
  let ?tool = "\<lparr>generator_plugin_config =
                 [(''voice_id'', elevenlabs_voice_id config),
                  (''elevenlabs_api_key'', elevenlabs_api_key config)]\<rparr>"
  have tool: "voice_tool config = Some ?tool"
    by (simp add: voice_tool_def)
  have turn: "run_agent config clean_text run super_run_agent (Suc depth) agent context s =
      and_then
        (super_run_agent agent
           (context\<lparr>emit_funcs :=
              map (wrap_emit clean_text run (voice_tool config)
                     (wrapped_context depth clean_text run (voice_tool config) context))
                (emit_funcs context)\<rparr>) s)
        (\<lambda>s1. Inr \<lparr>world = s1, agent_invoked = True\<rparr>)"
    if "limit_exceeded config context s = Inr (False, s)"
    using that by (simp add: run_agent_def and_then_Inr Let_def)
  have fan_out: "wrapper clean_text run (Some ?tool) inner emit_func (before @ b # after) md s0 =
      and_then (wrapper clean_text run (Some ?tool) inner emit_func before md s0) (\<lambda>s1.
      and_then (emit_func [b\<lparr>block_text := Some t\<rparr>] md s1) (\<lambda>s2.
      and_then (run ?tool [b\<lparr>block_text := Some t\<rparr>] inner) (\<lambda>out.
      and_then (first_item out) (\<lambda>audio_block.
      and_then (emit_func [set_public_data True audio_block] md s2)
        (wrapper clean_text run (Some ?tool) inner emit_func after md)))))"
    if "is_text b" and "clean_text (block_text b) = t" and "t \<noteq> []"
  proof -
    have body: "wrapper_body clean_text run (Some ?tool) inner emit_func md b s1 =
        and_then (emit_func [b\<lparr>block_text := Some t\<rparr>] md s1) (\<lambda>s2.
        and_then (run ?tool [b\<lparr>block_text := Some t\<rparr>] inner) (\<lambda>out.
        and_then (first_item out) (\<lambda>audio_block.
          emit_func [set_public_data True audio_block] md s2)))" for s1
      using that by (simp add: wrapper_body_text)
    show ?thesis
      by (simp only: wrapper_middle body and_then_seq)
  qed
  have unfold: "wrap_emit clean_text run (voice_tool config) inner emit_func =
      wrapper clean_text run (Some ?tool) inner emit_func"
    by (rule ext)+ (simp add: wrap_emit_def tool)
  show ?thesis
  proof (intro conjI impI)
    show "voice_tool config = Some ?tool"
      by (rule tool)
  next
    assume "limit_exceeded config context s = Inr (False, s)"
    then show "run_agent config clean_text run super_run_agent (Suc depth) agent context s =
      and_then
        (super_run_agent agent
           (context\<lparr>emit_funcs :=
              map (wrap_emit clean_text run (voice_tool config)
                     (wrapped_context depth clean_text run (voice_tool config) context))
                (emit_funcs context)\<rparr>) s)
        (\<lambda>s1. Inr \<lparr>world = s1, agent_invoked = True\<rparr>)"
      by (rule turn)
  next
    assume "is_text b \<and> clean_text (block_text b) = t \<and> t \<noteq> []"
    then have "is_text b" and "clean_text (block_text b) = t" and "t \<noteq> []"
      by simp_all
    then show "wrap_emit clean_text run (voice_tool config) inner emit_func
        (before @ b # after) md s0 =
      and_then (wrap_emit clean_text run (voice_tool config) inner emit_func before md s0)
        (\<lambda>s1.
      and_then (emit_func [b\<lparr>block_text := Some t\<rparr>] md s1) (\<lambda>s2.
      and_then (run ?tool [b\<lparr>block_text := Some t\<rparr>] inner) (\<lambda>out.
      and_then (first_item out) (\<lambda>audio_block.
      and_then (emit_func [set_public_data True audio_block] md s2)
        (wrap_emit clean_text run (voice_tool config) inner emit_func after md)))))"
      unfolding unfold by (rule fan_out)
  qed
qed

theorem voice_tool_never_none_witness:
  "voice_tool (sample_config ''7'') =
     Some \<lparr>generator_plugin_config = [(''voice_id'', []), (''elevenlabs_api_key'', [])]\<rparr> \<and>
   limit_exceeded (sample_config ''7'') (sample_context 4 [''telegram'', ''widget'']) [] =
     Inr (False, []) \<and>
   run_agent (sample_config ''7'') sample_clean_text sample_speech_run scripted_run_agent
     (Suc 2) [(1, [Block ''see you'', image_block ''pic'']), (0, [text_block ''bye''])]
     (sample_context 4 [''telegram'', ''widget'']) [] =
   Inr \<lparr>world =
          [(''widget'', [Block ''see you''], ()),
           (''widget'',
            [\<lparr>block_text = None, mime_type = Some AUDIO, content_url = Some ''see you'',
              public_data = True\<rparr>], ()),
           (''widget'', [image_block ''pic''], ()),
           (''telegram'', [text_block ''bye''], ()),
           (''telegram'',
            [\<lparr>block_text = None, mime_type = Some AUDIO, content_url = Some ''bye'',
              public_data = True\<rparr>], ())],
        agent_invoked = True\<rparr> \<and>
   (is_text (Block ''see you'') \<and>
    sample_clean_text (block_text (Block ''see you'')) = ''see you'' \<and>
    ''see you'' \<noteq> []) \<and>
   wrap_emit sample_clean_text sample_speech_run (voice_tool (sample_config ''7''))
     (sample_context 4 [''telegram'', ''widget'']) (recording_emit ''widget'')
     ([image_block ''a''] @ Block ''see you'' # [image_block ''b'']) () [] =
   Inr [(''widget'', [image_block ''a''], ()),
        (''widget'', [Block ''see you''], ()),
        (''widget'',
         [\<lparr>block_text = None, mime_type = Some AUDIO, content_url = Some ''see you'',
           public_data = True\<rparr>], ()),
        (''widget'', [image_block ''b''], ())]"
proof -
  have h: "limit_exceeded (sample_config ''7'') (sample_context 4 [''telegram'', ''widget'']) [] =
      Inr (False, [])"
    by (simp add: limit_exceeded_def MAX_FREE_MESSAGES_def sample_defs)
  have t: "is_text (Block ''see you'') \<and>
    sample_clean_text (block_text (Block ''see you'')) = ''see you'' \<and>
    ''see you'' \<noteq> []"
    by (simp add: is_text_def Block_def sample_defs)
  note inst = voice_tool_never_none
    [of "sample_config ''7''" "sample_context 4 [''telegram'', ''widget'']" "[]"
       sample_clean_text sample_speech_run scripted_run_agent 2
       "[(1, [Block ''see you'', image_block ''pic'']), (0, [text_block ''bye''])]"
       "Block ''see you''" "''see you''"
       "sample_context 4 [''telegram'', ''widget'']" "recording_emit ''widget''"
       "[image_block ''a'']" "[image_block ''b'']" "()" "[]"]
  show ?thesis
    using h t inst
    by (simp add: run_defs sample_defs Block_def eval_nat_numeral)
qed

subsection \<open>Defaults of the configuration\<close>

text \<open>
  C8, as the code has it. In a configuration built without a value for an optional
  field, \<^verbatim>\<open>elevenlabs_api_key\<close>, \<^verbatim>\<open>elevenlabs_voice_id\<close> and \<^verbatim>\<open>chat_ids\<close> are the empty
  string, and \<^verbatim>\<open>use_gpt4\<close> is true.
\<close>

theorem optional_fields_default:
  assumes "new_GirlFriendGPTConfig kw = Inr config"
  shows "(kw_elevenlabs_api_key kw = None \<longrightarrow> elevenlabs_api_key config = []) \<and>
         (kw_elevenlabs_voice_id kw = None \<longrightarrow> elevenlabs_voice_id config = []) \<and>
         (kw_chat_ids kw = None \<longrightarrow> chat_ids config = []) \<and>
         (kw_use_gpt4 kw = None \<longrightarrow> use_gpt4 config = True)"
  using assms
  by (auto simp: new_GirlFriendGPTConfig_def field_or_def split: if_splits)

theorem optional_fields_default_witness:
  "new_GirlFriendGPTConfig
     \<lparr>kw_bot_token = Some ''token'', kw_elevenlabs_api_key = None,
      kw_elevenlabs_voice_id = None, kw_chat_ids = None, kw_name = Some ''Sacha'',
      kw_byline = Some ''a companion'', kw_identity = Some ''curious'',
      kw_behavior = Some ''kind'', kw_use_gpt4 = None\<rparr> = Inr (sample_config []) \<and>
   elevenlabs_api_key (sample_config []) = [] \<and>
   elevenlabs_voice_id (sample_config []) = [] \<and>
   chat_ids (sample_config []) = [] \<and>
   use_gpt4 (sample_config []) = True"
proof -
  have h: "new_GirlFriendGPTConfig
     \<lparr>kw_bot_token = Some ''token'', kw_elevenlabs_api_key = None,
      kw_elevenlabs_voice_id = None, kw_chat_ids = None, kw_name = Some ''Sacha'',
      kw_byline = Some ''a companion'', kw_identity = Some ''curious'',
      kw_behavior = Some ''kind'', kw_use_gpt4 = None\<rparr> = Inr (sample_config [])"
    by (simp add: new_GirlFriendGPTConfig_def missing_fields_def field_or_def sample_config_def)
  show ?thesis
    using h optional_fields_default [OF h] by simp
qed

text \<open>
  C8, as the spec has it, makes \<^verbatim>\<open>use_gpt4\<close> default to false. It fails on a
  configuration built from the required fields alone: its \<^verbatim>\<open>use_gpt4\<close> is true, the
  default that \<^verbatim>\<open>Field(True, ...)\<close> declares.
\<close>

theorem use_gpt4_defaults_to_true:
  "new_GirlFriendGPTConfig
     \<lparr>kw_bot_token = Some ''token'', kw_elevenlabs_api_key = None,
      kw_elevenlabs_voice_id = None, kw_chat_ids = None, kw_name = Some ''Sacha'',
      kw_byline = Some ''a companion'', kw_identity = Some ''curious'',
      kw_behavior = Some ''kind'', kw_use_gpt4 = None\<rparr> =
   Inr \<lparr>bot_token = ''token'', elevenlabs_api_key = [], elevenlabs_voice_id = [],
        chat_ids = [], name = ''Sacha'', byline = ''a companion'', identity = ''curious'',
        behavior = ''kind'', use_gpt4 = True\<rparr>"
  by (simp add: new_GirlFriendGPTConfig_def missing_fields_def field_or_def)

end
